theory Spec2Isabelle
  imports Complex_Main "HOL-Library.Sublist"
begin

section \<open>Data model (src/agents/orchestrator.ts, src/agents/knowledge/seeker.ts)\<close>

text \<open>
  JavaScript numbers are modelled as exact reals (no rounding), strings as lists of
  characters, \<open>Date\<close> values as a natural number of milliseconds and values of type
  \<open>any\<close> that are only serialised (the context and the result of a task) by their JSON
  text. An exception is a value of type \<open>error\<close>: either an \<open>Error\<close> instance with its
  message, or some other thrown value.
\<close>

datatype error = Error string | NonError

datatype TaskStatus = pending | processing | completed | failed

datatype AgentStatus = idle | busy | learning

record AgentTask =
  task_id :: string
  userId :: string
  prompt :: string
  task_context :: string
  priority :: int
  task_status :: TaskStatus
  createdAt :: nat
  updatedAt :: nat

record KnowledgeItem =
  query :: string
  topic :: string
  content :: string
  source :: string
  confidence :: real
  timestamp :: nat
  relatedTopics :: "string list"

record Agent =
  agent_id :: string
  name :: string
  personality :: "string \<times> string \<times> string"
  specialization :: "string list"
  status :: AgentStatus
  currentTask :: "string option"
  knowledgeBase :: "(string \<times> KnowledgeItem) list"
  curiosityLevel :: real
  learningRate :: real

section \<open>String primitives of the host language\<close>

text \<open>\<open>String.prototype.toLowerCase\<close>, restricted to the ASCII letters.\<close>

definition lower_char :: "char \<Rightarrow> char" where
  "lower_char c =
     (let n = (of_char c :: nat) in if 65 \<le> n \<and> n \<le> 90 then char_of (n + 32) else c)"

definition toLowerCase :: "string \<Rightarrow> string" where
  "toLowerCase s = map lower_char s"

text \<open>
  \<open>s.split(sep)\<close> for a separator of one character: the pieces between the
  occurrences of the separator, empty pieces included, so that the result is never
  empty (\<open>"".split(" ")\<close> is \<open>[""]\<close>).
\<close>

fun str_split :: "char \<Rightarrow> string \<Rightarrow> string list" where
  "str_split sep [] = [[]]"
| "str_split sep (c # cs) =
     (if c = sep then [] # str_split sep cs
      else (case str_split sep cs of [] \<Rightarrow> [[c]] | w # ws \<Rightarrow> (c # w) # ws))"

text \<open>\<open>s.includes(k)\<close>: \<open>k\<close> occurs in \<open>s\<close> as a contiguous run.\<close>

fun starts_with :: "string \<Rightarrow> string \<Rightarrow> bool" where
  "starts_with s [] = True"
| "starts_with [] (k # ks) = False"
| "starts_with (c # cs) (k # ks) = (c = k \<and> starts_with cs ks)"

fun str_includes :: "string \<Rightarrow> string \<Rightarrow> bool" where
  "str_includes [] k = (k = [])"
| "str_includes (c # cs) k = (starts_with (c # cs) k \<or> str_includes cs k)"

section \<open>Agent scoring and selection\<close>

text \<open>
  \<open>calculateAgentScore\<close>: the accumulator \<open>score\<close> starts at 0, receives the two base
  terms, and then 0.5 for every specialization that includes some keyword, in the order
  of the \<open>for\<close> loop.
\<close>

definition keyword_match :: "string list \<Rightarrow> string \<Rightarrow> bool" where
  "keyword_match taskKeywords spec = list_ex (\<lambda>keyword. str_includes spec keyword) taskKeywords"

definition calculateAgentScore :: "Agent \<Rightarrow> AgentTask \<Rightarrow> real" where
  "calculateAgentScore agent task =
     (let score = 0;
          score = score + curiosityLevel agent * 0.3;
          score = score + learningRate agent * 0.2;
          taskKeywords = str_split (CHR '' '') (toLowerCase (prompt task))
      in fold (\<lambda>spec score. if keyword_match taskKeywords spec then score + 0.5 else score)
           (specialization agent) score)"

text \<open>
  \<open>selectAgent\<close>: the idle agents in the iteration order of the pool, each paired with
  its score, sorted by descending score with the stable \<open>Array.prototype.sort\<close>; the
  first element is returned, \<open>null\<close> when no agent is idle.
\<close>

definition scoredAgents :: "Agent list \<Rightarrow> AgentTask \<Rightarrow> (Agent \<times> real) list" where
  "scoredAgents agents task =
     (let availableAgents = filter (\<lambda>agent. status agent = idle) agents
      in sort_key (\<lambda>s. - snd s)
           (map (\<lambda>agent. (agent, calculateAgentScore agent task)) availableAgents))"

definition selectAgent :: "Agent list \<Rightarrow> AgentTask \<Rightarrow> Agent option" where
  "selectAgent agents task =
     (if filter (\<lambda>agent. status agent = idle) agents = [] then None
      else (case scoredAgents agents task of [] \<Rightarrow> None | s # _ \<Rightarrow> Some (fst s)))"

text \<open>
  \<open>initializeAgents\<close>: the pool is a \<open>Map\<close> from agent id to agent, filled in the order
  of the configuration table; it is modelled as the list of its values in iteration
  order. The id of an agent is \<open>agent-\<close> followed by its lower-cased name.
\<close>

definition newAgent :: "string \<Rightarrow> string \<times> string \<times> string \<Rightarrow> string list \<Rightarrow> real \<Rightarrow> real \<Rightarrow> Agent" where
  "newAgent n p spec c l =
     \<lparr>agent_id = ''agent-'' @ toLowerCase n, name = n, personality = p, specialization = spec,
      status = idle, currentTask = None, knowledgeBase = [], curiosityLevel = c,
      learningRate = l\<rparr>"

definition initializeAgents :: "Agent list" where
  "initializeAgents =
     [newAgent ''Aria'' (''curious'', ''analytical'', ''thorough'')
        [''research'', ''analysis'', ''data-mining''] 0.9 0.8,
      newAgent ''Zephyr'' (''creative'', ''intuitive'', ''innovative'')
        [''creative-writing'', ''brainstorming'', ''ideation''] 0.95 0.7,
      newAgent ''Sage'' (''wise'', ''methodical'', ''comprehensive'')
        [''knowledge-synthesis'', ''education'', ''explanation''] 0.8 0.9,
      newAgent ''Nova'' (''energetic'', ''quick'', ''adaptive'')
        [''real-time-processing'', ''quick-responses'', ''multitasking''] 0.85 0.85]"

section \<open>External collaborators\<close>

text \<open>
  A retrieved source record (\<open>title\<close>, \<open>content\<close>, \<open>source\<close>, \<open>url\<close>, \<open>confidence\<close>); an
  absent or empty \<open>content\<close> is the empty string, which is falsy either way.
\<close>

record Source =
  src_title :: string
  src_content :: string
  src_source :: string
  src_url :: "string option"
  src_confidence :: "real option"

text \<open>The body of the encyclopedia's reply: \<open>response.data\<close> with its \<open>title\<close>, \<open>extract\<close> and page URL.\<close>

record WikiData =
  wiki_title :: string
  wiki_extract :: string
  wiki_url :: "string option"

text \<open>The context object returned by the context builder; the orchestrator reads one field.\<close>

record Context =
  userInterests :: "string list option"

text \<open>
  Everything the core calls but does not define is a field of the environment: the
  outcome of each call as a function of its arguments, \<open>Inl\<close> for a rejected promise.
  The methods of the text-generation provider that catch their own errors
  (\<open>extractConcepts\<close>, \<open>extractInterests\<close>, \<open>extractRelatedTopics\<close>, \<open>extractMainTopic\<close>) have
  plain results; \<open>synthesizeInformation\<close> and \<open>generateInsights\<close> can reject.
  \<open>db_error\<close> and \<open>queue_error\<close> say whether the store and the queue are failing,
  \<open>now\<close> is the clock, \<open>math_random\<close> the value drawn by \<open>Math.random()\<close> in
  \<open>updateAgentKnowledge\<close>, and \<open>id_suffix\<close> the value of
  \<open>Math.random().toString(36).substr(2, 9)\<close> in \<open>submitTask\<close>.
\<close>

record env =
  wikipedia_get :: "string \<Rightarrow> error + WikiData option"
  ai_generateInsights :: "string \<Rightarrow> error + string"
  ai_synthesizeInformation :: "string \<Rightarrow> Source list \<Rightarrow> error + string"
  ai_extractRelatedTopics :: "string \<Rightarrow> string list"
  ai_extractMainTopic :: "string \<Rightarrow> string"
  ai_extractConcepts :: "string \<Rightarrow> string list"
  ai_extractInterests :: "string \<Rightarrow> string \<Rightarrow> string list"
  contextBuilder_buildContext :: "string \<Rightarrow> string \<Rightarrow> error + Context"
  contextBuilder_updateUserContext :: "string \<Rightarrow> string list \<Rightarrow> error option"
  taskProcessor_processTask ::
    "AgentTask \<Rightarrow> Context \<Rightarrow> KnowledgeItem list \<Rightarrow> Agent \<Rightarrow> error + string"
  db_error :: "error option"
  queue_error :: "error option"
  now :: nat
  math_random :: real
  id_suffix :: string

section \<open>Knowledge retrieval and synthesis (src/agents/knowledge/seeker.ts)\<close>

text \<open>
  \<open>performWebSearch\<close> is a placeholder that returns one record for any query;
  \<open>searchWeb\<close> keeps the first three results. Neither can fail.
\<close>

definition performWebSearch :: "string \<Rightarrow> Source list" where
  "performWebSearch q =
     [\<lparr>src_title = ''Search result for: '' @ q,
       src_content = ''Relevant information about '' @ q @ '' from web sources.'',
       src_source = ''Web Search'', src_url = Some ''https://example.com'',
       src_confidence = None\<rparr>]"

definition searchWeb :: "string \<Rightarrow> Source list" where
  "searchWeb q = take 3 (performWebSearch q)"

text \<open>
  \<open>searchWikipedia\<close>: the page summary is requested for the (URL-encoded) query; a
  reply with a non-empty extract gives one record, anything else, a failed request
  included, gives none.
\<close>

definition searchWikipedia :: "env \<Rightarrow> string \<Rightarrow> Source list" where
  "searchWikipedia e q =
     (case wikipedia_get e q of
        Inl err \<Rightarrow> []
      | Inr None \<Rightarrow> []
      | Inr (Some d) \<Rightarrow>
          if wiki_extract d \<noteq> [] then
            [\<lparr>src_title = wiki_title d, src_content = wiki_extract d,
              src_source = ''Wikipedia'', src_url = wiki_url d, src_confidence = None\<rparr>]
          else [])"

text \<open>\<open>generateAIInsights\<close>: one record with confidence 0.8, or \<open>null\<close> when the provider fails.\<close>

definition generateAIInsights :: "env \<Rightarrow> string \<Rightarrow> Source option" where
  "generateAIInsights e q =
     (case ai_generateInsights e q of
        Inl err \<Rightarrow> None
      | Inr insights \<Rightarrow>
          Some \<lparr>src_title = ''AI Insights: '' @ q, src_content = insights,
                src_source = ''AI Analysis'', src_url = None, src_confidence = Some 0.8\<rparr>)"

definition calculateConfidence :: "Source list \<Rightarrow> real" where
  "calculateConfidence sources =
     (if length sources = 0 then 0.1
      else if length sources = 1 then 0.6
      else if length sources = 2 then 0.8
      else 0.95)"

text \<open>\<open>sources.filter((source) => source && source.content)\<close>, on an array that may hold \<open>null\<close>.\<close>

definition validSources :: "Source option list \<Rightarrow> Source list" where
  "validSources sources =
     concat (map (\<lambda>s. case s of None \<Rightarrow> []
                        | Some x \<Rightarrow> if src_content x \<noteq> [] then [x] else []) sources)"

definition synthesizeKnowledge :: "env \<Rightarrow> string \<Rightarrow> Source option list \<Rightarrow> error + KnowledgeItem" where
  "synthesizeKnowledge e q sources =
     (let valid = validSources sources
      in case ai_synthesizeInformation e q valid of
           Inl err \<Rightarrow> Inl err
         | Inr synthesizedContent \<Rightarrow>
             Inr \<lparr>query = q, topic = ai_extractMainTopic e q, content = synthesizedContent,
                  source = ''Multi-source synthesis'', confidence = calculateConfidence valid,
                  timestamp = now e,
                  relatedTopics = ai_extractRelatedTopics e synthesizedContent\<rparr>)"

text \<open>The array handed to \<open>synthesizeKnowledge\<close>: \<open>[...webResults, ...wikiResults, aiInsights]\<close>.\<close>

definition gatherSources :: "env \<Rightarrow> string \<Rightarrow> Source option list" where
  "gatherSources e q =
     map Some (searchWeb q) @ map Some (searchWikipedia e q) @ [generateAIInsights e q]"

text \<open>The body of the \<open>try\<close> block of \<open>seekKnowledge\<close> for one query.\<close>

definition seekQuery :: "env \<Rightarrow> string \<Rightarrow> error + KnowledgeItem" where
  "seekQuery e q = synthesizeKnowledge e q (gatherSources e q)"

text \<open>
  The \<open>for\<close> loop of \<open>seekKnowledge\<close>: a synthesized item is pushed, an exception is
  caught and logged and the loop goes on with the next query.
\<close>

fun seekKnowledge_loop :: "env \<Rightarrow> KnowledgeItem list \<Rightarrow> string list \<Rightarrow> error + KnowledgeItem list" where
  "seekKnowledge_loop e knowledgeItems [] = Inr knowledgeItems"
| "seekKnowledge_loop e knowledgeItems (q # queries) =
     (case seekQuery e q of
        Inr synthesized \<Rightarrow> seekKnowledge_loop e (knowledgeItems @ [synthesized]) queries
      | Inl err \<Rightarrow> seekKnowledge_loop e knowledgeItems queries)"

definition seekKnowledge :: "env \<Rightarrow> string list \<Rightarrow> error + KnowledgeItem list" where
  "seekKnowledge e queries = seekKnowledge_loop e [] queries"

section \<open>The task store (src/database/schema.sql and the two statements of the orchestrator)\<close>

datatype sqlval = SText string | SInt int | STime nat | SNull

type_synonym row = "(string \<times> sqlval) list"

type_synonym tasks_table = "string \<rightharpoonup> row"

text \<open>
  The two statements the orchestrator sends: \<open>INSERT INTO tasks (columns) VALUES ($1, ...)\<close>
  with its column list and parameters, and
  \<open>UPDATE tasks SET result = $1, status = $2, updated_at = NOW() WHERE id = $3\<close> with
  its three parameters.
\<close>

datatype sql = InsertTasks "string list" "sqlval list" | UpdateTasksResult sqlval sqlval sqlval

text \<open>The column defaults of table \<open>tasks\<close> in schema.sql; a row is read with \<open>map_of\<close>.\<close>

definition tasks_defaults :: "nat \<Rightarrow> row" where
  "tasks_defaults t =
     [(''context'', SText ''{}''), (''result'', SNull), (''status'', SText ''pending''),
      (''priority'', SInt 1), (''created_at'', STime t), (''updated_at'', STime t)]"

text \<open>
  \<open>DatabaseManager.query\<close>: an error of the pool is rethrown. An insert stores the given
  columns over the defaults, keyed by the primary key \<open>id\<close>, and is refused when the key
  exists; an update of a missing row changes nothing.
\<close>

definition dbManager_query :: "env \<Rightarrow> tasks_table \<Rightarrow> sql \<Rightarrow> error + tasks_table" where
  "dbManager_query e tbl q =
     (case db_error e of
        Some err \<Rightarrow> Inl err
      | None \<Rightarrow>
          (case q of
             InsertTasks cols params \<Rightarrow>
               (let r = zip cols params @ tasks_defaults (now e)
                in case map_of r ''id'' of
                     Some (SText i) \<Rightarrow>
                       if tbl i \<noteq> None then Inl (Error ''duplicate key value'')
                       else Inr (tbl(i \<mapsto> r))
                   | _ \<Rightarrow> Inl (Error ''null value in column id''))
           | UpdateTasksResult res st i \<Rightarrow>
               (case i of
                  SText k \<Rightarrow>
                    (case tbl k of
                       None \<Rightarrow> Inr tbl
                     | Some r \<Rightarrow>
                         Inr (tbl(k \<mapsto> [(''result'', res), (''status'', st),
                                           (''updated_at'', STime (now e))] @ r)))
                | _ \<Rightarrow> Inr tbl)))"

section \<open>The task queue\<close>

text \<open>
  Modelled from the spec: the task queue (\<open>TaskQueue\<close>, src/queue/taskQueue.ts, is not
  among the sources). \<open>addTask\<close> makes a task visible to later \<open>getNextTask\<close> calls,
  \<open>getNextTask\<close> returns the next task in order of arrival and removes it, or returns
  nothing when the queue is empty; an outage of the backing store surfaces as an error
  from either.
\<close>

definition addTask :: "env \<Rightarrow> AgentTask list \<Rightarrow> AgentTask \<Rightarrow> error + AgentTask list" where
  "addTask e q task = (case queue_error e of Some err \<Rightarrow> Inl err | None \<Rightarrow> Inr (q @ [task]))"

definition getNextTask :: "env \<Rightarrow> AgentTask list \<Rightarrow> error + (AgentTask option \<times> AgentTask list)" where
  "getNextTask e q =
     (case queue_error e of
        Some err \<Rightarrow> Inl err
      | None \<Rightarrow> (case q of [] \<Rightarrow> Inr (None, []) | task # rest \<Rightarrow> Inr (Some task, rest)))"

section \<open>The orchestrator (src/agents/orchestrator.ts)\<close>

text \<open>
  An event published with \<open>io.to(room).emit(name, payload)\<close>: \<open>task-progress\<close> with the
  task id, the status text, the result and the agent's name, or \<open>task-error\<close> with the
  task id and the error text.
\<close>

datatype event = TaskProgress string string string string | TaskError string string

text \<open>
  The state: the agent pool, the queue, the task table, the events published so far
  with their rooms, and the explorations that were started without being awaited and
  have not resumed yet (the id of the agent and the \<open>recentKnowledge\<close> argument).
\<close>

record orchestrator =
  agents :: "Agent list"
  taskQueue :: "AgentTask list"
  tasks :: tasks_table
  events :: "(string \<times> event) list"
  explorations :: "(string \<times> KnowledgeItem list) list"

text \<open>
  The agent objects are mutated through references held in the pool; the model writes
  an agent back at its id, which is its key in the pool.
\<close>

definition putAgent :: "Agent \<Rightarrow> Agent list \<Rightarrow> Agent list" where
  "putAgent a pool = map (\<lambda>b. if agent_id b = agent_id a then a else b) pool"

text \<open>\<open>Map.prototype.set\<close> on the knowledge base: an existing key keeps its place.\<close>

fun map_set :: "(string \<times> 'v) list \<Rightarrow> string \<Rightarrow> 'v \<Rightarrow> (string \<times> 'v) list" where
  "map_set [] k v = [(k, v)]"
| "map_set (p # ps) k v = (if fst p = k then (k, v) # ps else p # map_set ps k v)"

definition join :: "string \<Rightarrow> string list \<Rightarrow> string" where
  "join sep xs = (case xs of [] \<Rightarrow> [] | y # ys \<Rightarrow> y @ concat (map (\<lambda>z. sep @ z) ys))"

text \<open>
  \<open>generateKnowledgeQueries\<close>: three queries per extracted concept; an absent
  \<open>userInterests\<close> is printed by the template as \<open>undefined\<close>.
\<close>

definition generateKnowledgeQueries :: "env \<Rightarrow> string \<Rightarrow> Context \<Rightarrow> string list" where
  "generateKnowledgeQueries e p ctx =
     concat (map (\<lambda>concept.
        [''What is '' @ concept @ ''?'',
         ''How does '' @ concept @ '' relate to ''
           @ (case userInterests ctx of None \<Rightarrow> ''undefined'' | Some is \<Rightarrow> join '', '' is) @ ''?'',
         ''Latest developments in '' @ concept]) (ai_extractConcepts e p))"

text \<open>
  \<open>updateAgentKnowledge\<close> is synchronous. It stores every item under
  \<open>item.topic || item.query\<close> with a fresh timestamp and \<open>item.confidence || 0.8\<close>, then
  draws a random number and, below the agent's curiosity level, calls the asynchronous
  \<open>triggerCuriousExploration\<close> without awaiting it. That call runs up to its first
  \<open>await\<close>, which sets the status to \<open>learning\<close>; the rest is pending when
  \<open>updateAgentKnowledge\<close> returns. The second component of the result is the
  \<open>recentKnowledge\<close> of the exploration started, if any.
\<close>

definition storeItem :: "env \<Rightarrow> KnowledgeItem \<Rightarrow> (string \<times> KnowledgeItem) list \<Rightarrow> (string \<times> KnowledgeItem) list" where
  "storeItem e item kb =
     map_set kb (if topic item \<noteq> [] then topic item else query item)
       (item\<lparr>timestamp := now e,
             confidence := (if confidence item \<noteq> 0 then confidence item else 0.8)\<rparr>)"

definition updateAgentKnowledge :: "env \<Rightarrow> Agent \<Rightarrow> KnowledgeItem list \<Rightarrow> Agent \<times> KnowledgeItem list option" where
  "updateAgentKnowledge e agent knowledge =
     (let agent = agent\<lparr>knowledgeBase := fold (storeItem e) knowledge (knowledgeBase agent)\<rparr>
      in if math_random e < curiosityLevel agent
         then (agent\<lparr>status := learning\<rparr>, Some knowledge)
         else (agent, None))"

text \<open>
  The rest of \<open>triggerCuriousExploration\<close>, run when its \<open>await\<close> resumes: the follow-up
  queries are sought, the agent's knowledge is updated (which may start a further
  exploration), and the status is set to \<open>idle\<close>.
\<close>

definition triggerCuriousExploration_resume :: "env \<Rightarrow> Agent \<Rightarrow> KnowledgeItem list \<Rightarrow> Agent \<times> KnowledgeItem list option" where
  "triggerCuriousExploration_resume e agent recentKnowledge =
     (let followUpQueries =
            map (\<lambda>item. ''Tell me more about '' @ topic item @ '' and its implications'')
              recentKnowledge
      in case seekKnowledge e followUpQueries of
           Inl err \<Rightarrow> (agent, None)
         | Inr additionalKnowledge \<Rightarrow>
             (case updateAgentKnowledge e agent additionalKnowledge of
                (agent, started) \<Rightarrow> (agent\<lparr>status := idle\<rparr>, started)))"

text \<open>One pending exploration resumes, on the agent as it is in the pool by then.\<close>

definition resumeExploration :: "env \<Rightarrow> orchestrator \<Rightarrow> orchestrator" where
  "resumeExploration e st =
     (case explorations st of
        [] \<Rightarrow> st
      | (aid, recentKnowledge) # rest \<Rightarrow>
          (case find (\<lambda>a. agent_id a = aid) (agents st) of
             None \<Rightarrow> st\<lparr>explorations := rest\<rparr>
           | Some agent \<Rightarrow>
               (case triggerCuriousExploration_resume e agent recentKnowledge of
                  (agent, started) \<Rightarrow>
                    st\<lparr>agents := putAgent agent (agents st),
                       explorations := rest @
                         (case started of None \<Rightarrow> [] | Some k \<Rightarrow> [(aid, k)])\<rparr>)))"

definition emit :: "string \<Rightarrow> event \<Rightarrow> orchestrator \<Rightarrow> orchestrator" where
  "emit room ev st = st\<lparr>events := events st @ [(room, ev)]\<rparr>"

text \<open>\<open>error instanceof Error ? error.message : "Unknown error"\<close>\<close>

definition error_message :: "error \<Rightarrow> string" where
  "error_message err = (case err of Error m \<Rightarrow> m | NonError \<Rightarrow> ''Unknown error'')"

definition storeTaskResult :: "env \<Rightarrow> orchestrator \<Rightarrow> string \<Rightarrow> string \<Rightarrow> error + orchestrator" where
  "storeTaskResult e st taskId result =
     (case dbManager_query e (tasks st)
             (UpdateTasksResult (SText result) (SText ''completed'') (SText taskId)) of
        Inl err \<Rightarrow> Inl err
      | Inr tbl \<Rightarrow> Inr (st\<lparr>tasks := tbl\<rparr>))"

definition updateUserContext :: "env \<Rightarrow> string \<Rightarrow> string \<Rightarrow> string \<Rightarrow> error option" where
  "updateUserContext e uid p result =
     contextBuilder_updateUserContext e uid (ai_extractInterests e p result)"

text \<open>
  The \<open>try\<close> block of \<open>processTask\<close>, in two parts: \<open>Inr\<close> when the part completes,
  \<open>Inl\<close> the exception and the state at the point where it was thrown.

  The first part runs from the selection to the call of the task processor, which
  receives the selected agent as it is after \<open>updateAgentKnowledge\<close>; it yields the
  state in which \<open>processTask\<close> waits for the processor, the selected agent and the
  outcome the processor will deliver.
\<close>

definition processTask_begin :: "env \<Rightarrow> orchestrator \<Rightarrow> AgentTask \<Rightarrow> (error \<times> orchestrator) + (orchestrator \<times> Agent \<times> (error + string))" where
  "processTask_begin e st task =
     (case selectAgent (agents st) task of
        None \<Rightarrow> Inl (Error ''No suitable agent available'', st)
      | Some selectedAgent \<Rightarrow>
          (let selectedAgent = selectedAgent\<lparr>status := busy, currentTask := Some (task_id task)\<rparr>;
               st = st\<lparr>agents := putAgent selectedAgent (agents st)\<rparr>
           in case contextBuilder_buildContext e (userId task) (prompt task) of
                Inl err \<Rightarrow> Inl (err, st)
              | Inr ctx \<Rightarrow>
          (let knowledgeQueries = generateKnowledgeQueries e (prompt task) ctx
           in case seekKnowledge e knowledgeQueries of
                Inl err \<Rightarrow> Inl (err, st)
              | Inr gatheredKnowledge \<Rightarrow>
          (case updateAgentKnowledge e selectedAgent gatheredKnowledge of
             (selectedAgent, started) \<Rightarrow>
          (let st = st\<lparr>agents := putAgent selectedAgent (agents st),
                      explorations := explorations st @
                        (case started of None \<Rightarrow> [] | Some k \<Rightarrow> [(agent_id selectedAgent, k)])\<rparr>
           in Inr (st, selectedAgent,
                   taskProcessor_processTask e task ctx gatheredKnowledge selectedAgent))))))"

text \<open>
  The second part runs from the processor's outcome to the end of the block: the result
  is stored, the user's context updated, \<open>task-progress\<close> published, and the selected
  agent, as it is in the pool by then, set to \<open>idle\<close> with no current task.
\<close>

definition releaseAgent :: "string \<Rightarrow> Agent list \<Rightarrow> Agent list" where
  "releaseAgent aid pool =
     map (\<lambda>b. if agent_id b = aid then b\<lparr>status := idle, currentTask := None\<rparr> else b) pool"

definition processTask_finish :: "env \<Rightarrow> orchestrator \<Rightarrow> AgentTask \<Rightarrow> Agent \<Rightarrow> error + string \<Rightarrow> (error \<times> orchestrator) + orchestrator" where
  "processTask_finish e st task selectedAgent outcome =
     (case outcome of
        Inl err \<Rightarrow> Inl (err, st)
      | Inr result \<Rightarrow>
          (case storeTaskResult e st (task_id task) result of
             Inl err \<Rightarrow> Inl (err, st)
           | Inr st \<Rightarrow>
          (case updateUserContext e (userId task) (prompt task) result of
             Some err \<Rightarrow> Inl (err, st)
           | None \<Rightarrow>
          (let st = emit (''user-'' @ userId task)
                      (TaskProgress (task_id task) ''completed'' result (name selectedAgent)) st
           in Inr (st\<lparr>agents := releaseAgent (agent_id selectedAgent) (agents st)\<rparr>)))))"

definition processTask_try :: "env \<Rightarrow> orchestrator \<Rightarrow> AgentTask \<Rightarrow> (error \<times> orchestrator) + orchestrator" where
  "processTask_try e st task =
     (case processTask_begin e st task of
        Inl thrown \<Rightarrow> Inl thrown
      | Inr (st, selectedAgent, outcome) \<Rightarrow> processTask_finish e st task selectedAgent outcome)"

text \<open>\<open>processTask\<close>: the \<open>catch\<close> block logs the error and publishes \<open>task-error\<close>.\<close>

definition processTask :: "env \<Rightarrow> orchestrator \<Rightarrow> AgentTask \<Rightarrow> orchestrator" where
  "processTask e st task =
     (case processTask_try e st task of
        Inr st' \<Rightarrow> st'
      | Inl (err, st') \<Rightarrow>
          emit (''user-'' @ userId task) (TaskError (task_id task) (error_message err)) st')"

text \<open>
  One run of the timer callback of \<open>startProcessingLoop\<close>: an error of the queue is
  caught and logged, an empty queue does nothing, a task is processed.
\<close>

definition processingTick :: "env \<Rightarrow> orchestrator \<Rightarrow> orchestrator" where
  "processingTick e st =
     (case getNextTask e (taskQueue st) of
        Inl err \<Rightarrow> st
      | Inr (None, q) \<Rightarrow> st\<lparr>taskQueue := q\<rparr>
      | Inr (Some task, q) \<Rightarrow> processTask e (st\<lparr>taskQueue := q\<rparr>) task)"

text \<open>Decimal digits of a number, as the template prints \<open>Date.now()\<close>.\<close>

fun show_nat :: "nat \<Rightarrow> string" where
  "show_nat n =
     (if n < 10 then [char_of (48 + n)] else show_nat (n div 10) @ [char_of (48 + n mod 10)])"

declare show_nat.simps [simp del]

definition status_text :: "TaskStatus \<Rightarrow> string" where
  "status_text s =
     (case s of pending \<Rightarrow> ''pending'' | processing \<Rightarrow> ''processing''
      | completed \<Rightarrow> ''completed'' | failed \<Rightarrow> ''failed'')"

text \<open>
  \<open>submitTask\<close>: the task is built, added to the queue, then inserted into the store
  (\<open>context\<close> defaults to the empty object when the caller passes none); a failure of
  either step rejects the call at that point. The result is the returned id or the
  error, and the state reached.
\<close>

definition newTask :: "env \<Rightarrow> string \<Rightarrow> string \<Rightarrow> string option \<Rightarrow> AgentTask" where
  "newTask e uid p ctx =
     \<lparr>task_id = ''task-'' @ show_nat (now e) @ ''-'' @ id_suffix e,
      userId = uid, prompt = p,
      task_context = (case ctx of None \<Rightarrow> ''{}'' | Some c \<Rightarrow> c),
      priority = 1, task_status = pending, createdAt = now e, updatedAt = now e\<rparr>"

definition insertTaskStatement :: "AgentTask \<Rightarrow> sql" where
  "insertTaskStatement task =
     InsertTasks
       [''id'', ''user_id'', ''prompt'', ''context'', ''status'', ''created_at'', ''updated_at'']
       [SText (task_id task), SText (userId task), SText (prompt task),
        SText (task_context task), SText (status_text (task_status task)),
        STime (createdAt task), STime (updatedAt task)]"

definition submitTask :: "env \<Rightarrow> orchestrator \<Rightarrow> string \<Rightarrow> string \<Rightarrow> string option \<Rightarrow> (error + string) \<times> orchestrator" where
  "submitTask e st uid p ctx =
     (let task = newTask e uid p ctx
      in case addTask e (taskQueue st) task of
           Inl err \<Rightarrow> (Inl err, st)
         | Inr q \<Rightarrow>
             (let st = st\<lparr>taskQueue := q\<rparr>
              in case dbManager_query e (tasks st) (insertTaskStatement task) of
                   Inl err \<Rightarrow> (Inl err, st)
                 | Inr tbl \<Rightarrow> (Inr (task_id task), st\<lparr>tasks := tbl\<rparr>)))"


section \<open>The specification's wording of the score and of the confidence\<close>

text \<open>
  The score as the specification words it: the tokens of the lower-cased prompt are its
  maximal runs of characters other than white space (space, tab, line feed, vertical
  tab, form feed, carriage return), and a specialization tag is counted when some token
  occurs in it.
\<close>

definition is_whitespace :: "char \<Rightarrow> bool" where
  "is_whitespace c = ((of_char c :: nat) \<in> {32, 9, 10, 11, 12, 13})"

fun ws_pieces :: "string \<Rightarrow> string list" where
  "ws_pieces [] = [[]]"
| "ws_pieces (c # cs) =
     (if is_whitespace c then [] # ws_pieces cs
      else (case ws_pieces cs of [] \<Rightarrow> [[c]] | w # ws \<Rightarrow> (c # w) # ws))"

definition spec_tokens :: "string \<Rightarrow> string list" where
  "spec_tokens s = filter (\<lambda>w. w \<noteq> []) (ws_pieces s)"

definition spec_specializationMatchCount :: "Agent \<Rightarrow> AgentTask \<Rightarrow> nat" where
  "spec_specializationMatchCount agent task =
     length (filter (\<lambda>tag. list_ex (\<lambda>token. sublist token tag)
                               (spec_tokens (toLowerCase (prompt task))))
               (specialization agent))"

definition spec_score :: "Agent \<Rightarrow> AgentTask \<Rightarrow> real" where
  "spec_score agent task =
     0.3 * curiosityLevel agent + 0.2 * learningRate agent
       + 0.5 * real (spec_specializationMatchCount agent task)"

text \<open>The confidence as the specification words it, a step function of the source count.\<close>

definition spec_confidence :: "nat \<Rightarrow> real" where
  "spec_confidence n = (if n = 0 then 0.1 else if n = 1 then 0.6 else if n = 2 then 0.8 else 0.95)"

section \<open>Sample runs\<close>

text \<open>
  An environment in which every collaborator answers: the encyclopedia has no entry,
  one concept is extracted, and the random draw is above every curiosity level.
\<close>

definition env_ok :: env where
  "env_ok =
     \<lparr>wikipedia_get = (\<lambda>q. Inr None),
      ai_generateInsights = (\<lambda>q. Inr ''insight''),
      ai_synthesizeInformation = (\<lambda>q srcs. Inr ''synthesis''),
      ai_extractRelatedTopics = (\<lambda>c. []),
      ai_extractMainTopic = (\<lambda>q. ''entanglement''),
      ai_extractConcepts = (\<lambda>p. [''entanglement'']),
      ai_extractInterests = (\<lambda>p r. [''physics'']),
      contextBuilder_buildContext = (\<lambda>u p. Inr \<lparr>userInterests = None\<rparr>),
      contextBuilder_updateUserContext = (\<lambda>u is. None),
      taskProcessor_processTask = (\<lambda>t c k a. Inr ''answer''),
      db_error = None, queue_error = None, now = 1000, math_random = 0.99,
      id_suffix = ''k3j9x0q2a''\<rparr>"

text \<open>The same with the processing step failing, with the store failing, and with a low draw.\<close>

definition env_processing_fails :: env where
  "env_processing_fails =
     env_ok\<lparr>taskProcessor_processTask := (\<lambda>t c k a. Inl (Error ''generation failed''))\<rparr>"


definition env_curious :: env where
  "env_curious = env_ok\<lparr>math_random := 0.5\<rparr>"

definition initial_state :: orchestrator where
  "initial_state =
     \<lparr>agents = initializeAgents, taskQueue = [], tasks = Map.empty, events = [],
      explorations = []\<rparr>"

text \<open>The task that \<open>submitTask\<close> builds for user \<open>u1\<close> in \<open>env_ok\<close>, and the state after submitting it.\<close>

definition sample_task :: AgentTask where
  "sample_task = newTask env_ok ''u1'' ''Explain quantum entanglement'' None"

definition submitted_state :: orchestrator where
  "submitted_state = snd (submitTask env_ok initial_state ''u1'' ''Explain quantum entanglement'' None)"

text \<open>The same state with every agent forced to \<open>busy\<close>.\<close>

definition all_busy_state :: orchestrator where
  "all_busy_state = submitted_state\<lparr>agents := map (\<lambda>a. a\<lparr>status := busy\<rparr>) (agents submitted_state)\<rparr>"

text \<open>A task whose prompt separates its two words by a tab.\<close>

definition tab_task :: AgentTask where
  "tab_task = newTask env_ok ''u1'' (''data'' @ [CHR 0x09] @ ''mining'') None"

text \<open>The item that \<open>seekKnowledge\<close> synthesizes for the query \<open>x\<close> in \<open>env_ok\<close>.\<close>

definition sample_item :: KnowledgeItem where
  "sample_item =
     \<lparr>query = ''x'', topic = ''entanglement'', content = ''synthesis'',
      source = ''Multi-source synthesis'', confidence = 0.8, timestamp = 1000,
      relatedTopics = []\<rparr>"


text \<open>A second task, submitted by another user one second later, that the first agent suits best.\<close>

definition second_task :: AgentTask where
  "second_task = newTask (env_ok\<lparr>now := 2000\<rparr>) ''u2'' ''Research notes'' None"

text \<open>What an observer sees of the pool: id, status and current task of every agent.\<close>

definition poolView :: "orchestrator \<Rightarrow> (string \<times> AgentStatus \<times> string option) list" where
  "poolView st = map (\<lambda>a. (agent_id a, status a, currentTask a)) (agents st)"

section \<open>Scoring\<close>

lemma starts_with_prefix: "starts_with s k = prefix k s"
  by (induction s k rule: starts_with.induct) auto

lemma str_includes_sublist: "str_includes s k = sublist k s"
  by (induction s) (auto simp: starts_with_prefix sublist_Cons_right)

lemma fold_score:
  "fold (\<lambda>spec score. if P spec then score + 0.5 else score) xs (s::real)
     = s + 0.5 * real (length (filter P xs))"
  by (induction xs arbitrary: s) (auto simp: algebra_simps)

text \<open>
  C5, as amended. The score of an agent for a task is
  0.3 * curiosityLevel + 0.2 * learningRate + 0.5 * matchCount, where matchCount counts
  the specialization tags in which some piece of the lower-cased prompt occurs, the
  pieces being those between single space characters: no other white space delimits,
  and adjacent, leading or trailing spaces give empty pieces, which occur in every tag.
\<close>

theorem calculateAgentScore_space_split:
  "calculateAgentScore agent task =
     0.3 * curiosityLevel agent + 0.2 * learningRate agent
       + 0.5 * real (length (filter
           (\<lambda>tag. list_ex (\<lambda>piece. sublist piece tag)
                     (str_split (CHR '' '') (toLowerCase (prompt task))))
           (specialization agent)))"
  by (simp add: calculateAgentScore_def Let_def fold_score keyword_match_def
      str_includes_sublist)

text \<open>
  C5 as stated fails for a prompt whose words are separated by a tab: the first agent
  of the pool has the tag \<open>data-mining\<close>, in which the token \<open>data\<close> occurs, but the
  code sees one piece, \<open>data<TAB>mining\<close>, which occurs in no tag.
\<close>

theorem calculateAgentScore_tab_counterexample:
  "calculateAgentScore (hd initializeAgents) tab_task \<noteq> spec_score (hd initializeAgents) tab_task"
proof -
  have "calculateAgentScore (hd initializeAgents) tab_task = 43 / 100" by code_simp
  moreover have "spec_score (hd initializeAgents) tab_task = 93 / 100" by code_simp
  ultimately show ?thesis by simp
qed

section \<open>Knowledge retrieval\<close>

lemma seekKnowledge_loop_eq:
  "seekKnowledge_loop e acc qs =
     Inr (acc @ concat (map (\<lambda>q. case seekQuery e q of Inr item \<Rightarrow> [item] | Inl err \<Rightarrow> []) qs))"
  by (induction qs arbitrary: acc) (auto split: sum.splits)

lemma seekKnowledge_eq:
  "seekKnowledge e queries =
     Inr (concat (map (\<lambda>q. case seekQuery e q of Inr item \<Rightarrow> [item] | Inl err \<Rightarrow> []) queries))"
  by (simp add: seekKnowledge_def seekKnowledge_loop_eq)

text \<open>
  C7. \<open>seekKnowledge\<close> never rejects, and its result holds, in the order of the queries,
  exactly the items of the queries whose processing succeeds: a query that fails
  contributes nothing and the queries after it are processed all the same.
\<close>

theorem seekKnowledge_isolates_failures:
  "seekKnowledge e queries =
     Inr (concat (map (\<lambda>q. case seekQuery e q of Inr item \<Rightarrow> [item] | Inl err \<Rightarrow> []) queries))"
  by (simp add: seekKnowledge_def seekKnowledge_loop_eq)

lemma calculateConfidence_spec: "calculateConfidence srcs = spec_confidence (length srcs)"
  by (simp add: calculateConfidence_def spec_confidence_def)

lemma synthesizeKnowledge_confidence:
  "synthesizeKnowledge e q sources = Inr item \<Longrightarrow>
     query item = q \<and> confidence item = spec_confidence (length (validSources sources))"
  by (auto simp: synthesizeKnowledge_def Let_def calculateConfidence_spec split: sum.splits)

text \<open>
  C6. Every item that \<open>seekKnowledge\<close> returns belongs to one of the queries, and its
  confidence is the step function of the number of valid sources retrieved for that
  query: 0.1 for none, 0.6 for one, 0.8 for two, 0.95 for three or more.
\<close>

theorem seekKnowledge_confidence_step:
  assumes "seekKnowledge e queries = Inr items" and "item \<in> set items"
  shows "query item \<in> set queries \<and>
     confidence item = spec_confidence (length (validSources (gatherSources e (query item))))"
proof -
  from assms obtain q where q: "q \<in> set queries" and s: "seekQuery e q = Inr item"
    by (auto simp: seekKnowledge_eq split: sum.splits)
  from s have "query item = q \<and>
      confidence item = spec_confidence (length (validSources (gatherSources e q)))"
    unfolding seekQuery_def by (rule synthesizeKnowledge_confidence)
  with q show ?thesis by simp
qed

theorem seekKnowledge_confidence_step_witness:
  "seekKnowledge env_ok [''x''] = Inr [sample_item] \<and> sample_item \<in> set [sample_item]
   \<and> query sample_item \<in> set [''x'']
   \<and> confidence sample_item
       = spec_confidence (length (validSources (gatherSources env_ok (query sample_item))))
   \<and> length (validSources (gatherSources env_ok (query sample_item))) = 2"
proof -
  have h: "seekKnowledge env_ok [''x''] = Inr [sample_item]" by code_simp
  have m: "sample_item \<in> set [sample_item]" by simp
  have n: "length (validSources (gatherSources env_ok (query sample_item))) = 2" by code_simp
  from seekKnowledge_confidence_step [OF h m] h m n show ?thesis by simp
qed

section \<open>Selection\<close>


lemma sort_key_Nil_iff: "sort_key f xs = [] \<longleftrightarrow> xs = []"
  by (metis length_sort length_0_conv)




lemma selectAgent_None_iff:
  "selectAgent pool task = None \<longleftrightarrow> filter (\<lambda>x. status x = idle) pool = []"
proof (cases "filter (\<lambda>x. status x = idle) pool = []")
  case True
  then show ?thesis by (simp add: selectAgent_def)
next
  case False
  then have "scoredAgents pool task \<noteq> []"
    by (simp add: scoredAgents_def Let_def sort_key_Nil_iff)
  then obtain s ss where "scoredAgents pool task = s # ss"
    by (cases "scoredAgents pool task") simp_all
  with False show ?thesis by (simp add: selectAgent_def)
qed





section \<open>Submission\<close>




lemma insert_row_status:
  "map_of (zip [''id'', ''user_id'', ''prompt'', ''context'', ''status'', ''created_at'', ''updated_at'']
        [a, b, c, d, s, f, g] @ rest) ''status'' = Some s"
  "map_of (zip [''id'', ''user_id'', ''prompt'', ''context'', ''status'', ''created_at'', ''updated_at'']
        [a, b, c, d, s, f, g] @ rest) ''id'' = Some a"
  by simp_all




section \<open>Processing\<close>




text \<open>
  C1. The claim is that the selected agent is \<open>idle\<close> with no current task when the
  processing of the task ends, on the success path and on every failure path. The code
  releases the agent at the end of the \<open>try\<close> block only, and the \<open>catch\<close> block does
  not: in the run below the task is submitted, taken from the queue and given to the
  first agent, the processing step fails, and when \<open>processTask\<close> has ended the agent is
  still \<open>busy\<close> and holds the task, with no exploration pending that could change it.
\<close>

theorem processTask_failure_keeps_agent_busy:
  "poolView (processingTick env_processing_fails submitted_state)
     = [(''agent-aria'', busy, Some ''task-1000-k3j9x0q2a''), (''agent-zephyr'', idle, None),
        (''agent-sage'', idle, None), (''agent-nova'', idle, None)]
   \<and> explorations (processingTick env_processing_fails submitted_state) = []
   \<and> events (processingTick env_processing_fails submitted_state)
       = [(''user-u1'', TaskError ''task-1000-k3j9x0q2a'' ''generation failed'')]"
  by code_simp

text \<open>
  C2, as amended. When a tick takes a task from the queue and no agent of the pool is
  idle, the task is not processed, no agent and no row of the store changes (so the
  persisted status of the task stays as it was), and exactly one \<open>task-error\<close> event with
  the text \<open>No suitable agent available\<close> is published on the user's channel; the task
  is not put back on the queue.
\<close>

theorem processingTick_no_idle_agent:
  assumes "getNextTask e (taskQueue st) = Inr (Some task, rest)"
    and "filter (\<lambda>a. status a = idle) (agents st) = []"
  shows "processingTick e st
     = st\<lparr>taskQueue := rest,
          events := events st @
            [(''user-'' @ userId task, TaskError (task_id task) ''No suitable agent available'')]\<rparr>"
  using assms
  by (simp add: processingTick_def processTask_def processTask_try_def processTask_begin_def
      selectAgent_def emit_def error_message_def)

theorem processingTick_no_idle_agent_witness:
  "getNextTask env_ok (taskQueue all_busy_state) = Inr (Some sample_task, [])
   \<and> filter (\<lambda>a. status a = idle) (agents all_busy_state) = []
   \<and> processingTick env_ok all_busy_state
       = all_busy_state\<lparr>taskQueue := [],
           events := events all_busy_state @
             [(''user-'' @ userId sample_task,
               TaskError (task_id sample_task) ''No suitable agent available'')]\<rparr>"
proof -
  have g: "getNextTask env_ok (taskQueue all_busy_state) = Inr (Some sample_task, [])"
    by code_simp
  have f: "filter (\<lambda>a. status a = idle) (agents all_busy_state) = []" by code_simp
  from processingTick_no_idle_agent [OF g f] g f show ?thesis by simp
qed

text \<open>
  C2 as stated fails with every agent busy: the tick publishes an event on the user's
  channel, and the queue, which held the task alone, is empty afterwards.
\<close>

theorem processingTick_all_busy_counterexample:
  "events all_busy_state = []
   \<and> events (processingTick env_ok all_busy_state)
       = [(''user-u1'', TaskError ''task-1000-k3j9x0q2a'' ''No suitable agent available'')]
   \<and> taskQueue all_busy_state = [sample_task]
   \<and> taskQueue (processingTick env_ok all_busy_state) = []"
  by code_simp




text \<open>
  C4. The claim is that an agent has a current task exactly while its status is \<open>busy\<close>,
  so that it holds at most one task. In the run below the random draw is under the
  curiosity level of the selected agent: when \<open>processTask\<close> waits for the task
  processor the agent holds the task with status \<open>learning\<close>; when the exploration
  resumes, the agent is \<open>idle\<close> and still holds the task; and a second task that arrives
  then is given to the same agent, whose current task is overwritten while the first
  task is still being processed.
\<close>

theorem exploration_releases_status_while_task_held:
  "(case processTask_begin env_curious submitted_state sample_task of
      Inl thrown \<Rightarrow> False
    | Inr (st, a, out) \<Rightarrow>
        poolView st
          = [(''agent-aria'', learning, Some ''task-1000-k3j9x0q2a''), (''agent-zephyr'', idle, None),
             (''agent-sage'', idle, None), (''agent-nova'', idle, None)]
        \<and> poolView (resumeExploration env_ok st)
          = [(''agent-aria'', idle, Some ''task-1000-k3j9x0q2a''), (''agent-zephyr'', idle, None),
             (''agent-sage'', idle, None), (''agent-nova'', idle, None)]
        \<and> (case processTask_begin env_ok (resumeExploration env_ok st) second_task of
              Inl thrown \<Rightarrow> False
            | Inr (st', a', out') \<Rightarrow>
                poolView st'
                  = [(''agent-aria'', busy, Some ''task-2000-k3j9x0q2a''),
                     (''agent-zephyr'', idle, None), (''agent-sage'', idle, None),
                     (''agent-nova'', idle, None)]))"
  by code_simp

end
